theory Spec2Isabelle
  imports Main "HOL-Library.FSet"
begin

section \<open>Python values, exceptions and strings\<close>

text \<open>
  The values a parsed request dictionary carries (\<open>typing.Dict[str, typing.Any]\<close>):
  integers and strings. Python never equates an \<open>int\<close> with a \<open>str\<close>, which is the
  equality of this datatype.
\<close>

datatype pyval = PInt int | PStr string

text \<open>
  Every exception the module can raise: the interpreter's own (a missing dictionary key, a
  missing attribute, a failed conversion, an operation on the wrong type) and the three HTTP errors of
  \<open>aiohttp.web\<close> the module raises by name.
\<close>

datatype error =
    KeyError string
  | AttributeError string
  | ValueError
  | TypeError
  | HTTPNotFound
  | HTTPBadRequest
  | HTTPRequestTimeout

text \<open>\<open>aiohttp.web.Response(status=n)\<close>.\<close>

datatype response = Response nat

text \<open>The status code of an exception that \<open>aiohttp\<close> turns into a response.\<close>

fun status_code :: "error \<Rightarrow> nat option" where
  "status_code HTTPNotFound = Some 404"
| "status_code HTTPBadRequest = Some 400"
| "status_code HTTPRequestTimeout = Some 408"
| "status_code (KeyError k) = None"
| "status_code (AttributeError a) = None"
| "status_code ValueError = None"
| "status_code TypeError = None"

type_synonym query = "string \<rightharpoonup> pyval"

text \<open>\<open>d[k]\<close>: a missing key raises \<open>KeyError(k)\<close>.\<close>

definition getitem :: "(string \<rightharpoonup> 'v) \<Rightarrow> string \<Rightarrow> error + 'v" where
  "getitem d k = (case d k of None \<Rightarrow> Inl (KeyError k) | Some v \<Rightarrow> Inr v)"

text \<open>Sequencing of two computations that may raise.\<close>

definition and_then :: "error + 'a \<Rightarrow> ('a \<Rightarrow> error + 'b) \<Rightarrow> error + 'b" where
  "and_then m f = (case m of Inl e \<Rightarrow> Inl e | Inr v \<Rightarrow> f v)"

text \<open>
  \<open>str.isspace\<close> on the code points below 256: tab, line feed, vertical tab, form feed,
  carriage return, the four separators 28 to 31, space, next line (133) and the no-break
  space (160). \<open>str.lstrip()\<close> and \<open>str.rstrip()\<close> without argument remove these.
\<close>

definition is_space :: "char \<Rightarrow> bool" where
  "is_space c = (of_char c \<in> set [9, 10, 11, 12, 13, 28, 29, 30, 31, 32, 133, 160 :: nat])"

definition lstrip :: "string \<Rightarrow> string" where
  "lstrip s = dropWhile is_space s"

definition rstrip :: "string \<Rightarrow> string" where
  "rstrip s = rev (dropWhile is_space (rev s))"

text \<open>
  \<open>s.split(sep)\<close> for a separator of one character: every occurrence splits, empty
  fields are kept, and the result is never empty (\<open>"".split("/") == [""]\<close>).
\<close>

fun py_split :: "char \<Rightarrow> string \<Rightarrow> string list" where
  "py_split sep [] = [[]]"
| "py_split sep (c # cs) =
     (if c = sep then [] # py_split sep cs
      else (case py_split sep cs of
              [] \<Rightarrow> [[c]]
            | w # ws \<Rightarrow> (c # w) # ws))"

text \<open>\<open>p in s\<close> on strings: \<open>p\<close> occurs in \<open>s\<close> as a contiguous substring.\<close>

fun contains :: "string \<Rightarrow> string \<Rightarrow> bool" where
  "contains p [] = (p = [])"
| "contains p (c # cs) = (take (length p) (c # cs) = p \<or> contains p cs)"

definition is_digit :: "char \<Rightarrow> bool" where
  "is_digit c = (48 \<le> (of_char c :: nat) \<and> (of_char c :: nat) \<le> 57)"

definition digit_val :: "char \<Rightarrow> nat" where
  "digit_val c = of_char c - 48"

text \<open>
  The digits of a decimal literal as \<open>int()\<close> accepts them: a single underscore may stand
  between two digits.
\<close>

fun parse_digits :: "nat \<Rightarrow> string \<Rightarrow> nat option" where
  "parse_digits acc [] = Some acc"
| "parse_digits acc (c # cs) =
     (if is_digit c then parse_digits (acc * 10 + digit_val c) cs
      else if c = CHR ''_'' then
        (case cs of
           [] \<Rightarrow> None
         | d # _ \<Rightarrow> if is_digit d then parse_digits acc cs else None)
      else None)"

definition parse_unsigned :: "string \<Rightarrow> nat option" where
  "parse_unsigned s =
     (case s of
        [] \<Rightarrow> None
      | d # _ \<Rightarrow> if is_digit d then parse_digits 0 s else None)"

text \<open>
  \<open>int(s)\<close> for a string, base ten: surrounding whitespace is dropped, one sign is
  allowed, and anything else than a decimal literal raises \<open>ValueError\<close>. The
  conversion does not take the separators 28 to 31 for whitespace. (The bound that recent
  interpreters put on the number of digits is left out.)
\<close>

definition is_int_space :: "char \<Rightarrow> bool" where
  "is_int_space c = (of_char c \<in> set [9, 10, 11, 12, 13, 32, 133, 160 :: nat])"

definition py_int :: "string \<Rightarrow> error + int" where
  "py_int s =
     (let t = rev (dropWhile is_int_space (rev (dropWhile is_int_space s)));
          r = (case t of
                 [] \<Rightarrow> None
               | c # cs \<Rightarrow>
                   if c = CHR ''-'' then map_option (\<lambda>n. - int n) (parse_unsigned cs)
                   else if c = CHR ''+'' then map_option int (parse_unsigned cs)
                   else map_option int (parse_unsigned t))
      in case r of None \<Rightarrow> Inl ValueError | Some n \<Rightarrow> Inr n)"

section \<open>The collaborators\<close>

text \<open>
  \<open>get_download_host\<close> and \<open>generate_download_url\<close> are imported from the package's
  \<open>common\<close> module, the token comes from the keystone session and the queue size from the
  process environment: all four are parameters of the model.
  \<open>generate_download_url host container object_name\<close> has \<open>None\<close> for an omitted
  object name.
\<close>

record deps =
  get_download_host :: "string \<Rightarrow> string"
  generate_download_url :: "string \<Rightarrow> string \<Rightarrow> string option \<Rightarrow> string"
  get_token :: string
  environ :: "string \<rightharpoonup> string"

text \<open>
  A request of the \<open>aiohttp\<close> client session: method, URL, body and headers. The body of
  the streamed upload is the session's own generator.
\<close>

datatype http_method = HEAD | GET | PUT

datatype payload = NoData | Bytes string | Reader "string list" | Generator

datatype request = Request http_method string payload "(string \<times> pyval) list"

record http_response =
  status :: nat
  text_of :: string

type_synonym client = "request \<Rightarrow> http_response"

text \<open>
  What an expression hands to \<open>await\<close>. The client is an \<open>aiohttp\<close> client session
  (lines 25 and 56), whose responses have \<open>text\<close> as a coroutine method: the call
  \<open>response.text()\<close> gives a coroutine, which yields the body when awaited, and the
  attribute \<open>response.text\<close> is the bound method itself, which cannot be awaited
  (\<open>TypeError\<close>).
\<close>

datatype awaitable = Coroutine string | BoundMethod string

definition py_await :: "awaitable \<Rightarrow> error + string" where
  "py_await a = (case a of Coroutine body \<Rightarrow> Inr body | BoundMethod body \<Rightarrow> Inl TypeError)"

definition text_attribute :: "http_response \<Rightarrow> awaitable" where
  "text_attribute resp = BoundMethod (text_of resp)"

section \<open>The upload session\<close>

text \<open>
  An entry of the priority queue: the chunk number, the request dictionary and the
  multipart reader, which hands out its pieces one \<open>read_chunk()\<close> at a time and the empty
  piece once exhausted.
\<close>

type_synonym entry = "pyval \<times> query \<times> string list"

record session =
  q_maxsize :: int
  q :: "entry list"
  done_chunks :: "pyval fset"
  project :: string
  container :: string
  chunk_size :: int
  total_size :: int
  total_chunks :: int
  content_type :: string
  ident :: string
  filename :: string
  path :: string
  total_uploaded :: int
  coro_upload :: "request option"
  host :: string
  url :: string
  segmented :: bool

text \<open>The HEAD request of \<open>a_check_segment\<close>.\<close>

definition head_request :: "deps \<Rightarrow> session \<Rightarrow> request" where
  "head_request d s = Request HEAD (url s) NoData [(''X-Auth-Token'', PStr (get_token d))]"

text \<open>
  \<open>a_check_segment\<close>: the result and the requests sent. The session is only read.
\<close>

definition a_check_segment ::
  "deps \<Rightarrow> client \<Rightarrow> session \<Rightarrow> pyval \<Rightarrow> (error + response) \<times> request list" where
  "a_check_segment d cl s chunk_number =
     (if status (cl (head_request d s)) = 200 then (Inr (Response 200), [head_request d s])
      else if chunk_number |\<in>| done_chunks s then (Inr (Response 200), [head_request d s])
      else (Inl HTTPNotFound, [head_request d s]))"

text \<open>
  The constructor. The queue bound is \<open>int(os.environ.get("SWIFT_UPLOAD_RUNNER_PROXY_Q_SIZE", 1))\<close>;
  the request's query string and the route's match information map names to strings. The
  statements run in the source's order, so the first failing one decides the exception.
\<close>

definition q_size :: "deps \<Rightarrow> error + int" where
  "q_size d =
     (case environ d ''SWIFT_UPLOAD_RUNNER_PROXY_Q_SIZE'' of
        None \<Rightarrow> Inr 1
      | Some v \<Rightarrow> py_int v)"

definition init ::
  "deps \<Rightarrow> (string \<rightharpoonup> string) \<Rightarrow> (string \<rightharpoonup> string) \<Rightarrow> error + session" where
  "init d query match =
     and_then (q_size d) (\<lambda>maxsize.
     and_then (getitem match ''project'') (\<lambda>proj.
     and_then (getitem match ''container'') (\<lambda>cont.
     and_then (and_then (getitem query ''resumableChunkSize'') py_int) (\<lambda>csize.
     and_then (and_then (getitem query ''resumableTotalSize'') py_int) (\<lambda>tsize.
     and_then (and_then (getitem query ''resumableTotalChunks'') py_int) (\<lambda>tchunks.
     and_then (getitem query ''resumableType'') (\<lambda>ctype.
     and_then (getitem query ''resumableIdentifier'') (\<lambda>idt.
     and_then (getitem query ''resumableFilename'') (\<lambda>fname.
     and_then (getitem query ''resumableRelativePath'') (\<lambda>rpath.
       Inr \<lparr> q_maxsize = maxsize,
             q = [],
             done_chunks = {||},
             project = proj,
             container = cont,
             chunk_size = csize,
             total_size = tsize,
             total_chunks = tchunks,
             content_type = ctype,
             ident = idt,
             filename = fname,
             path = rpath,
             total_uploaded = 0,
             coro_upload = None,
             host = get_download_host d proj,
             url = generate_download_url d (get_download_host d proj) cont (Some rpath),
             segmented = (if tsize \<ge> 5368709120 then True else False) \<rparr>))))))))))"

text \<open>
  \<open>a_sync_segments\<close>. Line 87 awaits \<open>request.text\<close>, the attribute, not the call
  \<open>request.text()\<close>. What the awaiting yields is stripped, split into lines and filtered
  for the lines that contain the path; the loop adds the integer after the last slash of
  each to the set as it goes, so an entry whose last field is no integer raises
  \<open>ValueError\<close> with the earlier entries already added.
\<close>

definition sync_request :: "deps \<Rightarrow> session \<Rightarrow> request" where
  "sync_request d s =
     Request GET
       (generate_download_url d (get_download_host d (project s)) (container s @ ''_segments'') None)
       NoData
       [(''X-Auth-Token'', PStr (get_token d))]"

fun add_segments :: "string list \<Rightarrow> pyval fset \<Rightarrow> (error + unit) \<times> pyval fset" where
  "add_segments [] dc = (Inr (), dc)"
| "add_segments (segment # segments) dc =
     (case py_int (last (py_split CHR ''/'' segment)) of
        Inl e \<Rightarrow> (Inl e, dc)
      | Inr n \<Rightarrow> add_segments segments (finsert (PInt n) dc))"

definition a_sync_segments ::
  "deps \<Rightarrow> client \<Rightarrow> session \<Rightarrow> (error + unit) \<times> session \<times> request list" where
  "a_sync_segments d cl s =
     (case py_await (text_attribute (cl (sync_request d s))) of
        Inl e \<Rightarrow> (Inl e, s, [sync_request d s])
      | Inr listing \<Rightarrow>
          (let segments = py_split (CHR 0x0A) (lstrip (rstrip listing));
               matching = filter (contains (path s)) segments;
               (r, dc) = add_segments matching (done_chunks s)
           in (r, s\<lparr>done_chunks := dc\<rparr>, [sync_request d s])))"

text \<open>\<open>a_add_manifest\<close>: an empty object with the manifest header; any status but 201 raises.\<close>

definition manifest_request :: "deps \<Rightarrow> session \<Rightarrow> request" where
  "manifest_request d s =
     Request PUT
       (generate_download_url d (host s) (container s) (Some (path s)))
       (Bytes [])
       [(''X-Auth-Token'', PStr (get_token d)),
        (''X-Object-Manifest'', PStr (container s @ ''_segments/'' @ path s @ ''/''))]"

definition a_add_manifest :: "deps \<Rightarrow> client \<Rightarrow> session \<Rightarrow> (error + unit) \<times> request list" where
  "a_add_manifest d cl s =
     (if status (cl (manifest_request d s)) \<noteq> 201
      then (Inl HTTPBadRequest, [manifest_request d s])
      else (Inr (), [manifest_request d s]))"

text \<open>
  The format specification \<open>08d\<close> renders an integer in decimal digits, with a minus
  sign for a negative number, filled with zeros after the sign up to a width of at least
  eight; a longer number is not cut.
\<close>

fun dec :: "nat \<Rightarrow> string" where
  "dec n = (if n < 10 then [char_of (48 + n)] else dec (n div 10) @ [char_of (48 + n mod 10)])"

declare dec.simps [simp del]

definition zero_pad_8 :: "int \<Rightarrow> string" where
  "zero_pad_8 n =
     (let sign = (if n < 0 then ''-'' else []);
          ds = dec (nat \<bar>n\<bar>)
      in sign @ replicate (8 - (length sign + length ds)) (CHR ''0'') @ ds)"

text \<open>
  \<open>format(v, "08d" + tail)\<close>. The presentation type \<open>d\<close> ends a format
  specification: with any character after it the specification is invalid and formatting
  raises \<open>ValueError\<close>, for an integer as for a string. A string has no type \<open>d\<close> and
  raises \<open>ValueError\<close> with the empty tail too.
\<close>

definition format_08d :: "string \<Rightarrow> pyval \<Rightarrow> error + string" where
  "format_08d tail v =
     (case v of
        PInt n \<Rightarrow> if tail = [] then Inr (zero_pad_8 n) else Inl ValueError
      | PStr x \<Rightarrow> Inl ValueError)"

text \<open>
  The replacement field for the chunk number runs over lines 151 to 153: after \<open>08d\<close>
  come the line break of line 152 and the twenty spaces that indent the closing brace
  on line 153, and they belong to the format specification.
\<close>

definition segment_spec_tail :: string where
  "segment_spec_tail = CHR 0x0A # replicate 20 (CHR '' '')"

text \<open>\<open>self.total_uploaded += v\<close>: adding a string to the integer raises \<open>TypeError\<close>.\<close>

definition iadd :: "int \<Rightarrow> pyval \<Rightarrow> error + int" where
  "iadd a v = (case v of PInt b \<Rightarrow> Inr (a + b) | PStr x \<Rightarrow> Inl TypeError)"

text \<open>
  How a call of \<open>a_add_chunk\<close> stands when it can run no further on its own: it raised, it
  returned a response, it is suspended in \<open>q.put\<close> on a full queue, or it has enqueued its
  chunk and polls in \<open>wait_for_chunk\<close> until the consumer has marked the chunk done.
\<close>

datatype outcome = Raised error | Returned response | PutBlocked | Waiting pyval

definition segment_request :: "deps \<Rightarrow> session \<Rightarrow> string \<Rightarrow> pyval \<Rightarrow> string list \<Rightarrow> request" where
  "segment_request d s name nbytes chunk_reader =
     Request PUT
       (generate_download_url d (host s) (container s @ ''_segments'') (Some (path s @ ''/'' @ name)))
       (Reader chunk_reader)
       [(''X-Auth-Token'', PStr (get_token d)),
        (''Content-Length'', nbytes),
        (''Content-Type'', PStr ''application/swiftclient-segment'')]"

definition upload_request :: "deps \<Rightarrow> session \<Rightarrow> pyval \<Rightarrow> request" where
  "upload_request d s tot =
     Request PUT (url s) Generator
       [(''X-Auth-Token'', PStr (get_token d)), (''Content-Length'', tot)]"

text \<open>
  The segmented branch of \<open>a_add_chunk\<close> (lines 147 to 168). The object name, with the
  chunk number formatted as lines 151 to 153 say, and the headers are evaluated before the
  request is sent. The byte count is added before the manifest is written, and the chunk
  number after it.
\<close>

definition add_chunk_segmented ::
  "deps \<Rightarrow> client \<Rightarrow> session \<Rightarrow> query \<Rightarrow> string list \<Rightarrow> outcome \<times> session \<times> request list" where
  "add_chunk_segmented d cl s query chunk_reader =
     (case query ''resumableChunkNumber'' of
        None \<Rightarrow> (Raised (KeyError ''resumableChunkNumber''), s, [])
      | Some v \<Rightarrow>
     (case format_08d segment_spec_tail v of
        Inl e \<Rightarrow> (Raised e, s, [])
      | Inr name \<Rightarrow>
     (case query ''resumableCurrentChunkSize'' of
        None \<Rightarrow> (Raised (KeyError ''resumableCurrentChunkSize''), s, [])
      | Some nbytes \<Rightarrow>
          if status (cl (segment_request d s name nbytes chunk_reader)) = 408
          then (Raised HTTPRequestTimeout, s, [segment_request d s name nbytes chunk_reader])
          else
     (case iadd (total_uploaded s) nbytes of
        Inl e \<Rightarrow> (Raised e, s, [segment_request d s name nbytes chunk_reader])
      | Inr tu \<Rightarrow>
          if tu = total_size s
          then
            (case a_add_manifest d cl (s\<lparr>total_uploaded := tu\<rparr>) of
               (Inl e, reqs) \<Rightarrow>
                 (Raised e, s\<lparr>total_uploaded := tu\<rparr>,
                  segment_request d s name nbytes chunk_reader # reqs)
             | (Inr u, reqs) \<Rightarrow>
                 (Returned (Response 201),
                  s\<lparr>total_uploaded := tu, done_chunks := finsert v (done_chunks s)\<rparr>,
                  segment_request d s name nbytes chunk_reader # reqs))
          else
            (Returned (Response 201),
             s\<lparr>total_uploaded := tu, done_chunks := finsert v (done_chunks s)\<rparr>,
             [segment_request d s name nbytes chunk_reader])))))"

text \<open>
  The queue is full when its bound is positive and reached (\<open>asyncio.Queue.full\<close>); a
  bound of zero or less is no bound.
\<close>

definition q_full :: "session \<Rightarrow> bool" where
  "q_full s = (0 < q_maxsize s \<and> q_maxsize s \<le> int (length (q s)))"

text \<open>
  The streamed branch of \<open>a_add_chunk\<close> (lines 170 to 188) up to its first suspension.
  While no chunk is done, every call creates the PUT of the destination anew and stores it
  in \<open>coro_upload\<close>. The entry is put after those in the queue; the comparisons the heap
  makes on the way (see \<open>key_less\<close> below) are left out, so the model is for an entry put
  into an empty queue or among chunk numbers that can be compared with its own and differ
  from it.
\<close>

definition add_chunk_streamed ::
  "deps \<Rightarrow> session \<Rightarrow> query \<Rightarrow> pyval \<Rightarrow> string list \<Rightarrow> outcome \<times> session \<times> request list" where
  "add_chunk_streamed d s query chunk_number chunk_reader =
     (if q_full s then (PutBlocked, s, [])
      else if done_chunks s = {||} then
        (case query ''resumableTotalSize'' of
           None \<Rightarrow>
             (Raised (KeyError ''resumableTotalSize''),
              s\<lparr>q := q s @ [(chunk_number, query, chunk_reader)]\<rparr>, [])
         | Some tot \<Rightarrow>
             (Waiting chunk_number,
              s\<lparr>q := q s @ [(chunk_number, query, chunk_reader)],
                coro_upload := Some (upload_request d s tot)\<rparr>,
              [upload_request d s tot]))
      else (Waiting chunk_number, s\<lparr>q := q s @ [(chunk_number, query, chunk_reader)]\<rparr>, []))"

text \<open>
  \<open>a_add_chunk\<close>: the outcome, the session afterwards and the requests handed to the
  client session. The chunk number is read under the key \<open>resumableChunkNUmber\<close>, as
  line 141 spells it.
\<close>

definition a_add_chunk ::
  "deps \<Rightarrow> client \<Rightarrow> session \<Rightarrow> query \<Rightarrow> string list \<Rightarrow> outcome \<times> session \<times> request list" where
  "a_add_chunk d cl s query chunk_reader =
     (case query ''resumableChunkNUmber'' of
        None \<Rightarrow> (Raised (KeyError ''resumableChunkNUmber''), s, [])
      | Some chunk_number \<Rightarrow>
          if chunk_number |\<in>| done_chunks s then (Returned (Response 200), s, [])
          else if segmented s then add_chunk_segmented d cl s query chunk_reader
          else add_chunk_streamed d s query chunk_number chunk_reader)"

text \<open>
  \<open>wait_for_chunk\<close> polls the set of done chunks, sleeping between two polls. The list
  holds the session as each poll finds it; the result is the number of sleeps before the
  chunk was seen, and \<open>None\<close> when no poll of the list sees it.
\<close>

fun wait_for_chunk :: "pyval \<Rightarrow> session list \<Rightarrow> nat option" where
  "wait_for_chunk chunk_number [] = None"
| "wait_for_chunk chunk_number (s # ss) =
     (if chunk_number |\<in>| done_chunks s then Some 0
      else map_option Suc (wait_for_chunk chunk_number ss))"

text \<open>Python's order on strings: by code point, a proper prefix first.\<close>

fun str_less :: "string \<Rightarrow> string \<Rightarrow> bool" where
  "str_less [] [] = False"
| "str_less [] (y # ys) = True"
| "str_less (x # xs) [] = False"
| "str_less (x # xs) (y # ys) =
     ((of_char x :: nat) < of_char y \<or> (x = y \<and> str_less xs ys))"

text \<open>
  The priority queue hands out the entry with the least chunk number among those it
  holds. The model is for chunk numbers that can be compared and differ: Python raises
  \<open>TypeError\<close> when the heap compares an integer with a string or two dictionaries.
\<close>

fun key_less :: "pyval \<Rightarrow> pyval \<Rightarrow> bool" where
  "key_less (PInt a) (PInt b) = (a < b)"
| "key_less (PStr a) (PStr b) = str_less a b"
| "key_less (PInt a) (PStr b) = False"
| "key_less (PStr a) (PInt b) = False"

fun q_pop :: "entry \<Rightarrow> entry list \<Rightarrow> entry \<times> entry list" where
  "q_pop e [] = (e, [])"
| "q_pop e (x # xs) =
     (case q_pop x xs of
        (m, rest) \<Rightarrow> if key_less (fst m) (fst e) then (m, e # rest) else (e, x # xs))"

fun q_get :: "entry list \<Rightarrow> (entry \<times> entry list) option" where
  "q_get [] = None"
| "q_get (e # es) = Some (q_pop e es)"

text \<open>
  One turn of the loop of \<open>generate_from_queue\<close> on the entry just taken from the queue
  (lines 195 to 210): the reader is read up to its first empty piece, the byte count is
  added, the chunk number joins the done chunks, and the loop ends when the number of
  done chunks equals \<open>resumableTotalChunks\<close> of this entry. The result says whether the
  loop ends.
\<close>

definition read_pieces :: "string list \<Rightarrow> string list" where
  "read_pieces chunk_reader = takeWhile (\<lambda>chunk. chunk \<noteq> []) chunk_reader"

definition consume :: "entry \<Rightarrow> entry list \<Rightarrow> session \<Rightarrow> (error + bool) \<times> session" where
  "consume e rest s =
     (case e of (chunk_number, query, chunk_reader) \<Rightarrow>
     (case query ''resumableCurrentChunkSize'' of
        None \<Rightarrow> (Inl (KeyError ''resumableCurrentChunkSize''), s\<lparr>q := rest\<rparr>)
      | Some nbytes \<Rightarrow>
     (case iadd (total_uploaded s) nbytes of
        Inl err \<Rightarrow> (Inl err, s\<lparr>q := rest\<rparr>)
      | Inr tu \<Rightarrow>
     (case query ''resumableTotalChunks'' of
        None \<Rightarrow>
          (Inl (KeyError ''resumableTotalChunks''),
           s\<lparr>q := rest, total_uploaded := tu,
             done_chunks := finsert chunk_number (done_chunks s)\<rparr>)
      | Some tot \<Rightarrow>
          (Inr (PInt (int (fcard (finsert chunk_number (done_chunks s)))) = tot),
           s\<lparr>q := rest, total_uploaded := tu,
             done_chunks := finsert chunk_number (done_chunks s)\<rparr>)))))"

text \<open>
  \<open>generate_from_queue\<close>, run for as long as the queue has an entry for it: how it
  stopped (it ended, it waits in \<open>q.get\<close> on an empty queue, or it raised), the session
  afterwards and the pieces it yielded. Before it ends it awaits \<open>coro_upload\<close>, an
  attribute that the session has only once \<open>a_add_chunk\<close> has assigned it.
\<close>

datatype gen_outcome = GenFinished | GenBlocked | GenRaised error

function generate_from_queue :: "session \<Rightarrow> gen_outcome \<times> session \<times> string list" where
  "generate_from_queue s =
     (case q_get (q s) of
        None \<Rightarrow> (GenBlocked, s, [])
      | Some (e, rest) \<Rightarrow>
          (case consume e rest s of
             (Inl err, s1) \<Rightarrow> (GenRaised err, s1, read_pieces (snd (snd e)))
           | (Inr stop, s1) \<Rightarrow>
               if stop then
                 (case coro_upload s1 of
                    None \<Rightarrow>
                      (GenRaised (AttributeError ''coro_upload''), s1, read_pieces (snd (snd e)))
                  | Some upload \<Rightarrow> (GenFinished, s1, read_pieces (snd (snd e))))
               else (case generate_from_queue s1 of
                       (r, s2, chunks) \<Rightarrow> (r, s2, read_pieces (snd (snd e)) @ chunks))))"
  by pat_completeness auto

termination
proof (relation "measure (\<lambda>s. length (q s))")
  show "wf (measure (\<lambda>s. length (q s)))" by simp
next
  fix s :: session and x2 e rest x s1 stop
  have len: "q_pop a es = (m, r) \<Longrightarrow> length r = length es" for a es m r
  proof (induction es arbitrary: a m r)
    case Nil
    then show ?case by simp
  next
    case (Cons x xs)
    obtain m' rest' where p: "q_pop x xs = (m', rest')" by (cases "q_pop x xs")
    from Cons.IH [OF p] Cons.prems p show ?case by (auto split: if_splits)
  qed
  assume g: "q_get (q s) = Some x2" and x2: "(e, rest) = x2"
    and c: "(x, s1) = consume e rest s"
  have "length rest < length (q s)"
  proof (cases "q s")
    case Nil
    with g show ?thesis by simp
  next
    case (Cons a es)
    with g x2 have "q_pop a es = (e, rest)" by simp
    from len [OF this] Cons show ?thesis by simp
  qed
  moreover have "q s1 = rest"
    using c by (auto simp: consume_def split: prod.splits option.splits sum.splits)
  ultimately show "(s1, s) \<in> measure (\<lambda>s. length (q s))" by simp
qed

declare generate_from_queue.simps [simp del]

text \<open>
  The operations of a session, each carried out against the backend's answers of the
  moment. \<open>a_check_segment\<close>, \<open>a_add_manifest\<close>, \<open>wait_for_chunk\<close>, \<open>get_q\<close>,
  \<open>get_segmented\<close> and \<open>write\<close> assign to no field.
\<close>

datatype operation =
    SyncSegments
  | CheckSegment pyval
  | AddManifest
  | AddChunk query "string list"
  | GenerateFromQueue
  | WaitForChunk pyval
  | GetQ
  | GetSegmented
  | Write

fun apply_operation :: "deps \<Rightarrow> client \<Rightarrow> operation \<Rightarrow> session \<Rightarrow> session" where
  "apply_operation d cl SyncSegments s = fst (snd (a_sync_segments d cl s))"
| "apply_operation d cl (CheckSegment n) s = s"
| "apply_operation d cl AddManifest s = s"
| "apply_operation d cl (AddChunk query chunk_reader) s =
     fst (snd (a_add_chunk d cl s query chunk_reader))"
| "apply_operation d cl GenerateFromQueue s = fst (snd (generate_from_queue s))"
| "apply_operation d cl (WaitForChunk n) s = s"
| "apply_operation d cl GetQ s = s"
| "apply_operation d cl GetSegmented s = s"
| "apply_operation d cl Write s = s"

fun run :: "deps \<Rightarrow> (client \<times> operation) list \<Rightarrow> session \<Rightarrow> session" where
  "run d [] s = s"
| "run d ((cl, op) # ops) s = run d ops (apply_operation d cl op s)"

section \<open>A sample session\<close>

text \<open>
  Collaborators and sessions for the worked examples: a backend that answers every
  request with one status, and one that answers the manifest request differently.
\<close>

definition sample_deps :: deps where
  "sample_deps =
     \<lparr> get_download_host = (\<lambda>p. ''https://store/'' @ p),
       generate_download_url =
         (\<lambda>h c obj. h @ ''/'' @ c @ (case obj of None \<Rightarrow> [] | Some n \<Rightarrow> ''/'' @ n)),
       get_token = ''token'',
       environ = Map.empty \<rparr>"

definition answers :: "nat \<Rightarrow> string \<Rightarrow> client" where
  "answers st body = (\<lambda>r. \<lparr> status = st, text_of = body \<rparr>)"

definition sample_match :: "string \<rightharpoonup> string" where
  "sample_match = map_of [(''project'', ''p''), (''container'', ''c'')]"

definition sample_query :: "string \<Rightarrow> string \<Rightarrow> (string \<rightharpoonup> string)" where
  "sample_query tsize tchunks =
     map_of
       [(''resumableChunkSize'', ''10''),
        (''resumableTotalSize'', tsize),
        (''resumableTotalChunks'', tchunks),
        (''resumableType'', ''text/plain''),
        (''resumableIdentifier'', ''id''),
        (''resumableFilename'', ''f.bin''),
        (''resumableRelativePath'', ''f.bin'')]"

definition sample_session :: "int \<Rightarrow> int \<Rightarrow> int \<Rightarrow> pyval fset \<Rightarrow> session" where
  "sample_session tsize tchunks uploaded dc =
     \<lparr> q_maxsize = 1,
       q = [],
       done_chunks = dc,
       project = ''p'',
       container = ''c'',
       chunk_size = 10,
       total_size = tsize,
       total_chunks = tchunks,
       content_type = ''text/plain'',
       ident = ''id'',
       filename = ''f.bin'',
       path = ''f.bin'',
       total_uploaded = uploaded,
       coro_upload = None,
       host = ''https://store/p'',
       url = ''https://store/p/c/f.bin'',
       segmented = (if tsize \<ge> 5368709120 then True else False) \<rparr>"

text \<open>
  The parameters of a chunk request as the protocol names them, and the same dictionary
  with the chunk number also under the key that line 141 reads.
\<close>

definition chunk_query :: "int \<Rightarrow> int \<Rightarrow> int \<Rightarrow> int \<Rightarrow> query" where
  "chunk_query n nbytes tsize tchunks =
     map_of
       [(''resumableChunkNumber'', PInt n),
        (''resumableCurrentChunkSize'', PInt nbytes),
        (''resumableChunkSize'', PInt 10),
        (''resumableTotalSize'', PInt tsize),
        (''resumableTotalChunks'', PInt tchunks),
        (''resumableType'', PStr ''text/plain''),
        (''resumableIdentifier'', PStr ''id''),
        (''resumableFilename'', PStr ''f.bin''),
        (''resumableRelativePath'', PStr ''f.bin'')]"

definition chunk_query_both :: "int \<Rightarrow> int \<Rightarrow> int \<Rightarrow> int \<Rightarrow> query" where
  "chunk_query_both n nbytes tsize tchunks =
     (chunk_query n nbytes tsize tchunks)(''resumableChunkNUmber'' \<mapsto> PInt n)"

definition sample_operations :: "(client \<times> operation) list" where
  "sample_operations =
     [(answers 200 ''f.bin/00000001'', SyncSegments),
      (answers 404 [], CheckSegment (PInt 0)),
      (answers 201 [], AddChunk (chunk_query_both 0 10 20 2) [''0123456789'']),
      (answers 201 [], GenerateFromQueue),
      (answers 201 [], WaitForChunk (PInt 0)),
      (answers 201 [], AddManifest),
      (answers 201 [], GetQ),
      (answers 201 [], GetSegmented),
      (answers 201 [], Write)]"


text \<open>A listing of the segments container: two segments of the sample object, one of another.\<close>

definition sample_listing :: string where
  "sample_listing =
     ''f.bin/00000000'' @ [CHR 0x0A] @ ''other/00000007'' @ [CHR 0x0A] @
     ''f.bin/00000002'' @ [CHR 0x0A]"

section \<open>Existence check\<close>

text \<open>
  C3. For every chunk number, the existence check sends one HEAD for the destination and
  then decides in this order: a HEAD status of 200 gives 200 whatever the chunk number;
  otherwise a chunk number in the set of completed chunks gives 200; otherwise the check
  raises the 404 Not Found error.
\<close>

theorem a_check_segment_order:
  "snd (a_check_segment d cl s n) = [head_request d s] \<and>
   (status (cl (head_request d s)) = 200 \<longrightarrow>
      fst (a_check_segment d cl s n) = Inr (Response 200)) \<and>
   (status (cl (head_request d s)) \<noteq> 200 \<and> n |\<in>| done_chunks s \<longrightarrow>
      fst (a_check_segment d cl s n) = Inr (Response 200)) \<and>
   (status (cl (head_request d s)) \<noteq> 200 \<and> n |\<notin>| done_chunks s \<longrightarrow>
      fst (a_check_segment d cl s n) = Inl HTTPNotFound \<and> status_code HTTPNotFound = Some 404)"
  by (simp add: a_check_segment_def)

theorem a_check_segment_order_witness:
  "fst (a_check_segment sample_deps (answers 200 []) (sample_session 20 2 0 {||}) (PInt 7))
     = Inr (Response 200) \<and>
   fst (a_check_segment sample_deps (answers 404 []) (sample_session 20 2 0 {|PInt 3|}) (PInt 3))
     = Inr (Response 200) \<and>
   fst (a_check_segment sample_deps (answers 404 []) (sample_session 20 2 0 {|PInt 3|}) (PInt 7))
     = Inl HTTPNotFound"
  using
    a_check_segment_order [of sample_deps "answers 200 []" "sample_session 20 2 0 {||}" "PInt 7"]
    a_check_segment_order [of sample_deps "answers 404 []" "sample_session 20 2 0 {|PInt 3|}" "PInt 3"]
    a_check_segment_order [of sample_deps "answers 404 []" "sample_session 20 2 0 {|PInt 3|}" "PInt 7"]
  by (simp add: answers_def sample_session_def)

text \<open>
  C10. Whatever status but 200 the HEAD comes back with (401, 403, 500 as much as 404), the
  existence check does the same as for any other such status: it goes on to the
  membership test and raises 404 Not Found for a chunk that is not done. The status of the
  backend never reaches the result.
\<close>

theorem a_check_segment_head_errors:
  assumes "status (cl (head_request d s)) \<noteq> 200"
    and "status (cl' (head_request d s)) \<noteq> 200"
  shows "a_check_segment d cl s n = a_check_segment d cl' s n \<and>
         fst (a_check_segment d cl s n) =
           (if n |\<in>| done_chunks s then Inr (Response 200) else Inl HTTPNotFound)"
  using assms by (simp add: a_check_segment_def)

theorem a_check_segment_head_errors_witness:
  "a_check_segment sample_deps (answers 500 []) (sample_session 20 2 0 {|PInt 3|}) (PInt 7)
     = a_check_segment sample_deps (answers 404 []) (sample_session 20 2 0 {|PInt 3|}) (PInt 7) \<and>
   fst (a_check_segment sample_deps (answers 500 []) (sample_session 20 2 0 {|PInt 3|}) (PInt 7))
     = Inl HTTPNotFound \<and>
   fst (a_check_segment sample_deps (answers 401 []) (sample_session 20 2 0 {|PInt 3|}) (PInt 3))
     = Inr (Response 200) \<and>
   fst (a_check_segment sample_deps (answers 403 []) (sample_session 20 2 0 {|PInt 3|}) (PInt 7))
     = Inl HTTPNotFound"
proof -
  let ?S = "sample_session 20 2 0 {|PInt 3|}"
  have st: "status (answers c [] (head_request sample_deps ?S)) = c" for c
    by (simp add: answers_def)
  have dc: "done_chunks ?S = {|PInt 3|}"
    by (simp add: sample_session_def)
  note r1 = a_check_segment_head_errors
    [of "answers 500 []" sample_deps ?S "answers 404 []" "PInt 7", unfolded st dc, simplified]
  note r2 = a_check_segment_head_errors
    [of "answers 401 []" sample_deps ?S "answers 404 []" "PInt 3", unfolded st dc, simplified]
  note r3 = a_check_segment_head_errors
    [of "answers 403 []" sample_deps ?S "answers 404 []" "PInt 7", unfolded st dc, simplified]
  from r1 [THEN conjunct1] r1 [THEN conjunct2] r2 [THEN conjunct2] r3 [THEN conjunct2]
  show ?thesis by (intro conjI)
qed

section \<open>Mode selection\<close>

lemma and_then_Inr:
  assumes "and_then m f = Inr y"
  obtains x where "m = Inr x" and "f x = Inr y"
  using assms by (cases m) (simp_all add: and_then_def)

lemma init_segmented:
  assumes "init d query match = Inr s"
  shows "(segmented s \<longleftrightarrow> total_size s \<ge> 5368709120) \<and>
         and_then (getitem query ''resumableTotalSize'') py_int = Inr (total_size s)"
proof -
  from assms obtain tstr tsize where g: "getitem query ''resumableTotalSize'' = Inr tstr"
    and p: "py_int tstr = Inr tsize"
    and t: "total_size s = tsize" and sg: "segmented s = (tsize \<ge> 5368709120)"
    unfolding init_def
    apply (elim and_then_Inr)
    apply (simp only: sum.inject)
    apply fastforce
    done
  then show ?thesis by (simp add: and_then_def)
qed

lemma a_sync_segments_segmented: "segmented (fst (snd (a_sync_segments d cl s))) = segmented s"
  by (simp add: a_sync_segments_def Let_def split: prod.split sum.split)

lemma add_chunk_streamed_segmented:
  "segmented (fst (snd (add_chunk_streamed d s query n r))) = segmented s"
  by (simp add: add_chunk_streamed_def split: option.split)

lemma add_chunk_segmented_segmented:
  "segmented (fst (snd (add_chunk_segmented d cl s query r))) = segmented s"
  unfolding add_chunk_segmented_def
  by (simp split: option.split sum.split prod.split)

lemma a_add_chunk_segmented: "segmented (fst (snd (a_add_chunk d cl s query r))) = segmented s"
  unfolding a_add_chunk_def
  by (simp add: add_chunk_streamed_segmented add_chunk_segmented_segmented split: option.split)

lemma consume_segmented: "segmented (snd (consume e rest s)) = segmented s"
  by (simp add: consume_def split: prod.split option.split sum.split)

lemma generate_from_queue_segmented: "segmented (fst (snd (generate_from_queue s))) = segmented s"
proof (induction s rule: generate_from_queue.induct)
  case (1 s)
  show ?case
  proof (cases "q_get (q s)")
    case None
    then show ?thesis by (subst generate_from_queue.simps) simp
  next
    case (Some p)
    obtain e rest where p: "p = (e, rest)" by (cases p)
    obtain x s1 where c: "consume e rest s = (x, s1)" by (cases "consume e rest s")
    from consume_segmented [of e rest s] c have s1: "segmented s1 = segmented s" by simp
    show ?thesis
    proof (cases x)
      case (Inl err)
      with Some p c s1 show ?thesis by (subst generate_from_queue.simps) simp
    next
      case (Inr stop)
      show ?thesis
      proof (cases stop)
        case True
        with Some p c s1 Inr show ?thesis
          by (subst generate_from_queue.simps) (simp split: option.split)
      next
        case False
        from "1.IH" [OF Some p [symmetric] c [symmetric] Inr False] s1
        have "segmented (fst (snd (generate_from_queue s1))) = segmented s" by simp
        with Some p c Inr False show ?thesis
          by (subst generate_from_queue.simps) (auto split: prod.split)
      qed
    qed
  qed
qed

lemma apply_operation_segmented: "segmented (apply_operation d cl op s) = segmented s"
  by (cases op)
     (simp_all add: a_sync_segments_segmented a_add_chunk_segmented generate_from_queue_segmented)

lemma run_segmented: "segmented (run d ops s) = segmented s"
proof (induction ops arbitrary: s)
  case Nil
  show ?case by simp
next
  case (Cons a ops)
  obtain cl op where "a = (cl, op)" by (cases a)
  with Cons.IH [of "apply_operation d cl op s"] show ?case
    by (simp add: apply_operation_segmented)
qed

lemma py_int_samples:
  "py_int ''5368709119'' = Inr 5368709119" "py_int ''5368709120'' = Inr 5368709120"
  "py_int ''10'' = Inr 10" "py_int ''2'' = Inr 2"
  by (simp_all add: py_int_def is_int_space_def parse_unsigned_def is_digit_def digit_val_def)

lemma gets:
  "getitem (sample_query a b) ''resumableChunkSize'' = Inr ''10''"
  "getitem (sample_query a b) ''resumableTotalSize'' = Inr a"
  "getitem (sample_query a b) ''resumableTotalChunks'' = Inr b"
  "getitem (sample_query a b) ''resumableType'' = Inr ''text/plain''"
  "getitem (sample_query a b) ''resumableIdentifier'' = Inr ''id''"
  "getitem (sample_query a b) ''resumableFilename'' = Inr ''f.bin''"
  "getitem (sample_query a b) ''resumableRelativePath'' = Inr ''f.bin''"
  "getitem sample_match ''project'' = Inr ''p''"
  "getitem sample_match ''container'' = Inr ''c''"
  by (simp_all add: getitem_def sample_query_def sample_match_def)

lemma and_then_Inr_eq: "and_then (Inr x) f = f x"
  by (simp add: and_then_def)

lemma init_sample:
  "init sample_deps (sample_query ''5368709119'' ''2'') sample_match
     = Inr (sample_session 5368709119 2 0 {||})"
  "init sample_deps (sample_query ''5368709120'' ''2'') sample_match
     = Inr (sample_session 5368709120 2 0 {||})"
  by (simp_all add: init_def q_size_def gets and_then_Inr_eq py_int_samples sample_session_def sample_deps_def)

text \<open>
  C5. A session that the constructor returns is segmented exactly when its total size,
  the integer read from \<open>resumableTotalSize\<close>, is at least 5368709120, and no sequence of
  operations of the session changes the flag afterwards. (5368709119 gives a streamed
  session and 5368709120 a segmented one: see the example after the theorem.)
\<close>

theorem segmented_fixed_at_creation:
  assumes "init d query match = Inr s"
  shows "(segmented s \<longleftrightarrow> total_size s \<ge> 5368709120) \<and>
         and_then (getitem query ''resumableTotalSize'') py_int = Inr (total_size s) \<and>
         segmented (run d ops s) = segmented s"
  using init_segmented [OF assms] run_segmented by simp

theorem segmented_fixed_at_creation_witness:
  "init sample_deps (sample_query ''5368709119'' ''2'') sample_match
     = Inr (sample_session 5368709119 2 0 {||}) \<and>
   \<not> segmented (sample_session 5368709119 2 0 {||}) \<and>
   \<not> segmented (run sample_deps sample_operations (sample_session 5368709119 2 0 {||})) \<and>
   init sample_deps (sample_query ''5368709120'' ''2'') sample_match
     = Inr (sample_session 5368709120 2 0 {||}) \<and>
   segmented (sample_session 5368709120 2 0 {||}) \<and>
   segmented (run sample_deps sample_operations (sample_session 5368709120 2 0 {||}))"
proof -
  let ?A = "sample_session 5368709119 2 0 {||}"
  let ?B = "sample_session 5368709120 2 0 {||}"
  have t1: "total_size ?A = 5368709119" and t2: "total_size ?B = 5368709120"
    by (simp_all add: sample_session_def)
  note a = segmented_fixed_at_creation [OF init_sample(1), of sample_operations, unfolded t1]
  note b = segmented_fixed_at_creation [OF init_sample(2), of sample_operations, unfolded t2]
  have a1: "\<not> segmented ?A" using a [THEN conjunct1] by simp
  have b1: "segmented ?B" using b [THEN conjunct1] by simp
  have a2: "\<not> segmented (run sample_deps sample_operations ?A)"
    using a [THEN conjunct2, THEN conjunct2] a1 by simp
  have b2: "segmented (run sample_deps sample_operations ?B)"
    using b [THEN conjunct2, THEN conjunct2] b1 by simp
  from init_sample(1) a1 a2 init_sample(2) b1 b2 show ?thesis by (intro conjI)
qed

section \<open>Chunk upload\<close>

text \<open>
  C2. A call of \<open>a_add_chunk\<close> whose dictionary carries the parameters of the protocol
  (\<open>resumableChunkNumber\<close>, \<open>resumableCurrentChunkSize\<close>, \<open>resumableTotalSize\<close>,
  \<open>resumableTotalChunks\<close> and the others) ends in none of 200, 201, 408 and 400: line 141
  looks the chunk number up under \<open>resumableChunkNUmber\<close>, so the call raises
  \<open>KeyError\<close>, which has no status of its own, before it reads the session or sends
  anything.
\<close>

theorem documented_query_raises:
  "a_add_chunk d cl s (chunk_query n nbytes tsize tchunks) r
     = (Raised (KeyError ''resumableChunkNUmber''), s, []) \<and>
   status_code (KeyError ''resumableChunkNUmber'') = None"
  by (simp add: a_add_chunk_def chunk_query_def)

text \<open>
  C4. Sending a chunk again whose number is among the done chunks, with the parameters of
  the protocol, raises \<open>KeyError\<close> instead of answering 200. The session is left as it
  was and nothing is sent. Only a dictionary that has the number under the key of line
  141 as well gets the 200 that lines 143 and 144 are there for.
\<close>

theorem resend_of_done_chunk_raises:
  "a_add_chunk d cl (s\<lparr>done_chunks := finsert (PInt n) dc\<rparr>)
       (chunk_query n nbytes tsize tchunks) r
     = (Raised (KeyError ''resumableChunkNUmber''), s\<lparr>done_chunks := finsert (PInt n) dc\<rparr>, []) \<and>
   a_add_chunk d cl (s\<lparr>done_chunks := finsert (PInt n) dc\<rparr>)
       (chunk_query_both n nbytes tsize tchunks) r
     = (Returned (Response 200), s\<lparr>done_chunks := finsert (PInt n) dc\<rparr>, [])"
  by (simp add: a_add_chunk_def chunk_query_def chunk_query_both_def)



section \<open>Streamed upload\<close>

text \<open>
  C1. A streamed session of two chunks of ten bytes, with the queue bound of 1 that the
  constructor takes when the environment sets none, receives chunk 1 and then chunk 0.
  With the parameters of the protocol both calls raise \<open>KeyError\<close>, nothing is
  enqueued, no PUT is created and the generator has nothing to yield. With the chunk
  number also under the key of line 141: the call for chunk 1 enqueues it and creates the
  PUT; the call for chunk 0 is held in \<open>q.put\<close>, the queue being full; the generator
  takes the one entry there is and yields chunk 1; chunk 0 is enqueued only then and
  yielded second. One PUT is created and the generator ends after both chunks, but the
  bytes it yields are chunk 1 followed by chunk 0.
\<close>

theorem streamed_body_follows_arrival:
  "(a_add_chunk sample_deps (answers 201 []) (sample_session 20 2 0 {||})
        (chunk_query 1 10 20 2) [''bbbbbbbbbb'']
      = (Raised (KeyError ''resumableChunkNUmber''), sample_session 20 2 0 {||}, [])) \<and>
   (a_add_chunk sample_deps (answers 201 []) (sample_session 20 2 0 {||})
        (chunk_query 0 10 20 2) [''aaaaaaaaaa'']
      = (Raised (KeyError ''resumableChunkNUmber''), sample_session 20 2 0 {||}, [])) \<and>
   generate_from_queue (sample_session 20 2 0 {||})
      = (GenBlocked, sample_session 20 2 0 {||}, []) \<and>
   (let d = sample_deps;
        cl = answers 201 [];
        Q1 = chunk_query_both 1 10 20 2;
        Q0 = chunk_query_both 0 10 20 2;
        (o1, s1, p1) = a_add_chunk d cl (sample_session 20 2 0 {||}) Q1 [''bbbbbbbbbb''];
        (o2, s2, p2) = a_add_chunk d cl s1 Q0 [''aaaaaaaaaa''];
        (g3, s3, y3) = generate_from_queue s2;
        (o4, s4, p4) = a_add_chunk d cl s3 Q0 [''aaaaaaaaaa''];
        (g5, s5, y5) = generate_from_queue s4
    in o1 = Waiting (PInt 1) \<and> o2 = PutBlocked \<and> g3 = GenBlocked \<and>
       o4 = Waiting (PInt 0) \<and> g5 = GenFinished \<and>
       p1 @ p2 @ p4 = [upload_request d (sample_session 20 2 0 {||}) (PInt 20)] \<and>
       y3 @ y5 = [''bbbbbbbbbb'', ''aaaaaaaaaa''] \<and>
       done_chunks s5 = {|PInt 0, PInt 1|} \<and>
       total_uploaded s5 = 20)"
  by (simp add: a_add_chunk_def add_chunk_streamed_def chunk_query_both_def chunk_query_def
      sample_session_def q_full_def upload_request_def generate_from_queue.simps consume_def
      read_pieces_def iadd_def fcard_finsert_if fcard_fempty)

section \<open>Segment names\<close>

text \<open>
  C8. No object name is built for any chunk. The format specification that lines 151 to
  153 give the chunk number is invalid, so formatting raises \<open>ValueError\<close> for every
  value, and the segmented branch ends there for every session, backend and chunk: it
  raises and creates no request (chunk 3 serves as the example).
\<close>

theorem segment_name_never_built:
  "format_08d segment_spec_tail v = Inl ValueError \<and>
   snd (snd (add_chunk_segmented d cl s query r)) = [] \<and>
   add_chunk_segmented d cl s (chunk_query_both 3 10 tsize tchunks) r
     = (Raised ValueError, s, [])"
proof -
  have f: "format_08d segment_spec_tail v = Inl ValueError" for v
    by (simp add: format_08d_def segment_spec_tail_def split: pyval.split)
  have n: "snd (snd (add_chunk_segmented d cl s query r)) = []"
    by (simp add: add_chunk_segmented_def f split: option.split)
  have c: "add_chunk_segmented d cl s (chunk_query_both 3 10 tsize tchunks) r
     = (Raised ValueError, s, [])"
    by (simp add: add_chunk_segmented_def f chunk_query_both_def chunk_query_def)
  from f n c show ?thesis by (intro conjI)
qed

section \<open>Resume discovery\<close>

text \<open>
  C9. \<open>a_sync_segments\<close> sends the GET for the listing of the segments container and
  then raises \<open>TypeError\<close>, whatever the backend answers: line 87 awaits the method
  \<open>request.text\<close> instead of calling it. The done chunks are not touched. For the sample
  listing, which names segments 0 and 2 of the session's object, they stay empty.
\<close>

theorem a_sync_segments_raises:
  "a_sync_segments d cl s = (Inl TypeError, s, [sync_request d s]) \<and>
   done_chunks (fst (snd (a_sync_segments sample_deps (answers 200 sample_listing)
      (sample_session 5368709120 3 0 {||})))) = {||}"
proof -
  have g: "a_sync_segments d cl s = (Inl TypeError, s, [sync_request d s])" for d cl s
    by (simp add: a_sync_segments_def py_await_def text_attribute_def)
  have "done_chunks (sample_session 5368709120 3 0 {||}) = {||}"
    by (simp add: sample_session_def)
  with g show ?thesis by simp
qed

end
